theory Spec2Isabelle
  imports Main "HOL-Library.Word"
begin

section \<open>Data model\<close>

text \<open>
  The layer consists of three C files of \<open>fuzzcheck/src/code_coverage_sensor\<close>:
  \<open>instrumentation_pointers_linux.c\<close>, \<open>instrumentation_pointers_mac.c\<close> and
  \<open>c_builtins.c\<close>. Every function in them is a single \<open>return\<close> of an address, so the
  embedding is a small state-and-fault monad over the running process: a call takes the
  process state and either faults or returns a pointer together with the state it leaves.
\<close>

text \<open>Addresses are pointer-sized machine words of the 64-bit targets.\<close>

type_synonym addr = "64 word"

text \<open>The pointee types that occur in the five signatures:
  \<open>char *\<close>, \<open>unsigned long int *\<close> and \<open>void *\<close>.\<close>

datatype ctype = CChar | CUnsignedLong | CVoid

record pointer =
  pointee :: ctype
  target :: addr

text \<open>The linked image: the address the linker resolved every external symbol to.
  It is fixed when the program is linked and is not part of the mutable process state.\<close>

type_synonym linked_image = "string \<Rightarrow> addr"

text \<open>A call frame, with the address at which execution resumes once the frame's function
  returns. The head of the stack is the frame of the function that is executing.\<close>

record frame =
  func :: string
  return_to :: addr

record process =
  stack :: "frame list"
  memory :: "addr \<Rightarrow> 8 word"

datatype fault = Crashed

type_synonym 'a prog = "process \<Rightarrow> fault + ('a \<times> process)"

text \<open>What a finished call leaves behind: the returned value, and the process state.\<close>

definition value_of :: "fault + ('a \<times> process) \<Rightarrow> 'a option" where
  "value_of r = (case r of Inl _ \<Rightarrow> None | Inr (v, _) \<Rightarrow> Some v)"

definition state_after :: "fault + ('a \<times> process) \<Rightarrow> process option" where
  "state_after r = (case r of Inl _ \<Rightarrow> None | Inr (_, s) \<Rightarrow> Some s)"

text \<open>The C expression \<open>&sym\<close> for an external symbol \<open>sym\<close> declared with type \<open>ty\<close>,
  returned from a function: the address is the one the linker resolved, nothing is read from
  or written to memory.\<close>

definition address_of :: "linked_image \<Rightarrow> ctype \<Rightarrow> string \<Rightarrow> pointer prog" where
  "address_of img ty nm s = Inr (\<lparr>pointee = ty, target = img nm\<rparr>, s)"

text \<open>A global variable a translation unit defines: its symbol, whether the symbol is
  visible to the linker (\<open>extern\<close> or no specifier) or local to the unit (\<open>static\<close>), and its
  initial value. An object file carries the globals it defines and the symbols it leaves
  for the linker to resolve.\<close>

datatype linkage = External | Internal

record global_definition =
  gsymbol :: string
  glinkage :: linkage
  ginitial :: int

record object_file =
  globals :: "global_definition list"
  externs :: "string list"

section \<open>Section locator, ELF variant (\<open>instrumentation_pointers_linux.c\<close>)\<close>

text \<open>\<open>extern int __llvm_profile_runtime = 0;\<close>: the globals the file defines. A
  declaration with an initializer is a definition, and \<open>extern\<close> gives it external linkage.\<close>

definition linux_globals :: "global_definition list" where
  "linux_globals =
     [\<lparr>gsymbol = ''__llvm_profile_runtime'', glinkage = External, ginitial = 0\<rparr>]"

definition get_start_prf_data_linux :: "linked_image \<Rightarrow> pointer prog" where
  "get_start_prf_data_linux img = address_of img CChar ''__start___llvm_prf_data''"

definition get_end_prf_data_linux :: "linked_image \<Rightarrow> pointer prog" where
  "get_end_prf_data_linux img = address_of img CChar ''__stop___llvm_prf_data''"

definition get_start_instrumentation_counters_linux :: "linked_image \<Rightarrow> pointer prog" where
  "get_start_instrumentation_counters_linux img =
     address_of img CUnsignedLong ''__start___llvm_prf_cnts''"

definition get_end_instrumentation_counters_linux :: "linked_image \<Rightarrow> pointer prog" where
  "get_end_instrumentation_counters_linux img =
     address_of img CUnsignedLong ''__stop___llvm_prf_cnts''"

text \<open>The object the file compiles to: its one global, and the four symbols it declares
  \<open>extern\<close> without defining them.\<close>

definition linux_object :: object_file where
  "linux_object =
     \<lparr>globals = linux_globals,
      externs = [''__start___llvm_prf_cnts'', ''__stop___llvm_prf_cnts'',
                 ''__start___llvm_prf_data'', ''__stop___llvm_prf_data'']\<rparr>"

text \<open>The functions the file exports, in source order.\<close>

definition linux_exports :: "(string \<times> (linked_image \<Rightarrow> pointer prog)) list" where
  "linux_exports =
     [(''get_start_prf_data'', get_start_prf_data_linux),
      (''get_end_prf_data'', get_end_prf_data_linux),
      (''get_start_instrumentation_counters'', get_start_instrumentation_counters_linux),
      (''get_end_instrumentation_counters'', get_end_instrumentation_counters_linux)]"

section \<open>Section locator, Mach-O variant (\<open>instrumentation_pointers_mac.c\<close>)\<close>

definition mac_globals :: "global_definition list" where
  "mac_globals =
     [\<lparr>gsymbol = ''__llvm_profile_runtime'', glinkage = External, ginitial = 0\<rparr>]"

text \<open>The four \<open>extern\<close> declarations carry an \<open>__asm\<close> label: the C identifier stands for
  the linker symbol given in the label.\<close>

definition CountersStart :: string where
  "CountersStart = ''section$start$__DATA$__llvm_prf_cnts''"

definition CountersEnd :: string where
  "CountersEnd = ''section$end$__DATA$__llvm_prf_cnts''"

definition PrfDataStart :: string where
  "PrfDataStart = ''section$start$__DATA$__llvm_prf_data''"

definition PrfDataEnd :: string where
  "PrfDataEnd = ''section$end$__DATA$__llvm_prf_data''"

definition get_start_instrumentation_counters_mac :: "linked_image \<Rightarrow> pointer prog" where
  "get_start_instrumentation_counters_mac img = address_of img CUnsignedLong CountersStart"

definition get_end_instrumentation_counters_mac :: "linked_image \<Rightarrow> pointer prog" where
  "get_end_instrumentation_counters_mac img = address_of img CUnsignedLong CountersEnd"

definition get_start_prf_data_mac :: "linked_image \<Rightarrow> pointer prog" where
  "get_start_prf_data_mac img = address_of img CChar PrfDataStart"

definition get_end_prf_data_mac :: "linked_image \<Rightarrow> pointer prog" where
  "get_end_prf_data_mac img = address_of img CChar PrfDataEnd"

definition mac_object :: object_file where
  "mac_object =
     \<lparr>globals = mac_globals,
      externs = [CountersStart, CountersEnd, PrfDataStart, PrfDataEnd]\<rparr>"

definition mac_exports :: "(string \<times> (linked_image \<Rightarrow> pointer prog)) list" where
  "mac_exports =
     [(''get_start_instrumentation_counters'', get_start_instrumentation_counters_mac),
      (''get_end_instrumentation_counters'', get_end_instrumentation_counters_mac),
      (''get_start_prf_data'', get_start_prf_data_mac),
      (''get_end_prf_data'', get_end_prf_data_mac)]"

text \<open>Calling an exported function by name; \<open>None\<close> when the variant exports no such name.\<close>

definition call_export ::
  "(string \<times> (linked_image \<Rightarrow> pointer prog)) list \<Rightarrow> string \<Rightarrow> linked_image \<Rightarrow> process
     \<Rightarrow> (fault + (pointer \<times> process)) option" where
  "call_export tbl name img s = map_option (\<lambda>f. f img s) (map_of tbl name)"

section \<open>Frame inspector (\<open>c_builtins.c\<close>)\<close>

text \<open>
  The compiler intrinsic \<open>__builtin_return_address\<close> is not code of the repository. Its
  behaviour is taken from the documentation that \<open>c_builtins.c\<close> quotes above the call
  (lines 5 to 28): level 0 yields the return address of the current function, level 1 that of
  its caller, and so forth; where the machine cannot determine the return address of any
  function but the current one, or the top of the stack has been reached, the intrinsic
  returns 0 or a random value; a call with a nonzero level can have unpredictable effects,
  including crashing the program. Lines 30 to 32 add that frame pointers must be present,
  which the build ensures with \<open>-Cforce-frame-pointers=yes\<close>.

  The undetermined case is therefore a parameter of the platform: an arbitrary program.
\<close>

record platform =
  walks_frames :: bool
  frame_pointers :: bool
  undetermined :: "nat \<Rightarrow> process \<Rightarrow> fault + (pointer \<times> process)"

definition determinable :: "platform \<Rightarrow> nat \<Rightarrow> process \<Rightarrow> bool" where
  "determinable pf level s \<longleftrightarrow>
     level < length (stack s) \<and> (level = 0 \<or> (walks_frames pf \<and> frame_pointers pf))"

definition builtin_return_address :: "platform \<Rightarrow> nat \<Rightarrow> pointer prog" where
  "builtin_return_address pf level s =
     (if determinable pf level s
      then Inr (\<lparr>pointee = CVoid, target = return_to (stack s ! level)\<rparr>, s)
      else undetermined pf level s)"

text \<open>\<open>void* return_address() { return __builtin_return_address(1); }\<close>, evaluated in the
  state in which the frame of \<open>return_address\<close> itself is the head of the stack.\<close>

definition return_address :: "platform \<Rightarrow> pointer prog" where
  "return_address pf = builtin_return_address pf 1"

section \<open>The linker's boundary symbols\<close>

datatype region = Counters | Metadata

datatype bound = Start | End

text \<open>Modelled from the spec: the names of the two sections and the linker-synthesized
  symbols that mark the first and the one-past-last address of a section, which the linkers
  (not the repository) define: \<open>__start_\<close>/\<open>__stop_\<close> followed by the section name for ELF, and
  the segment-qualified \<open>section$start$\<close>/\<open>section$end$\<close> form for Mach-O.\<close>

definition section_name :: "region \<Rightarrow> string" where
  "section_name r = (case r of Counters \<Rightarrow> ''__llvm_prf_cnts'' | Metadata \<Rightarrow> ''__llvm_prf_data'')"

definition elf_boundary_symbol :: "bound \<Rightarrow> string \<Rightarrow> string" where
  "elf_boundary_symbol b sec = (case b of Start \<Rightarrow> ''__start_'' | End \<Rightarrow> ''__stop_'') @ sec"

definition macho_boundary_symbol :: "bound \<Rightarrow> string \<Rightarrow> string \<Rightarrow> string" where
  "macho_boundary_symbol b seg sec =
     ''section$'' @ (case b of Start \<Rightarrow> ''start'' | End \<Rightarrow> ''end'') @ ''$'' @ seg @ ''$'' @ sec"

text \<open>The accessors of both variants, for statements that hold of each of them.\<close>

definition section_accessors :: "(linked_image \<Rightarrow> pointer prog) list" where
  "section_accessors = map snd (linux_exports @ mac_exports)"

definition returns :: "fault + ('a \<times> process) \<Rightarrow> bool" where
  "returns r = (case r of Inl _ \<Rightarrow> False | Inr _ \<Rightarrow> True)"

section \<open>The operations as the specification words them\<close>

text \<open>Specification, section 4.2: \<open>return_address_of(level)\<close> yields an address, or the null
  sentinel if undeterminable; level 0 is the address at which execution resumes in the
  immediately enclosing function, level \<open>n\<close> the same for the \<open>n\<close>-th ancestor caller.\<close>

definition return_address_of :: "nat \<Rightarrow> process \<Rightarrow> pointer" where
  "return_address_of level s =
     \<lparr>pointee = CVoid,
      target = (if level < length (stack s) then return_to (stack s ! level) else 0)\<rparr>"

text \<open>Specification, sections 3 and 4.1: a region is \<open>[start, end)\<close>; the Section Locator
  interface has the operations \<open>start_of\<close> and \<open>end_of\<close> for the counters and the metadata
  region, the counters pair typed as pointers to word-sized unsigned integers, the metadata
  pair as byte pointers.\<close>

type_synonym layout = "region \<Rightarrow> addr \<times> addr"

definition bound_address :: "layout \<Rightarrow> region \<Rightarrow> bound \<Rightarrow> addr" where
  "bound_address lay r b = (case b of Start \<Rightarrow> fst (lay r) | End \<Rightarrow> snd (lay r))"

definition element_type :: "region \<Rightarrow> ctype" where
  "element_type r = (case r of Counters \<Rightarrow> CUnsignedLong | Metadata \<Rightarrow> CChar)"

definition section_locator :: "layout \<Rightarrow> region \<Rightarrow> bound \<Rightarrow> pointer" where
  "section_locator lay r b = \<lparr>pointee = element_type r, target = bound_address lay r b\<rparr>"

definition operation_name :: "region \<Rightarrow> bound \<Rightarrow> string" where
  "operation_name r b =
     (case (r, b) of
        (Counters, Start) \<Rightarrow> ''get_start_instrumentation_counters''
      | (Counters, End) \<Rightarrow> ''get_end_instrumentation_counters''
      | (Metadata, Start) \<Rightarrow> ''get_start_prf_data''
      | (Metadata, End) \<Rightarrow> ''get_end_prf_data'')"

definition all_bounds :: "(region \<times> bound) list" where
  "all_bounds = [(Counters, Start), (Counters, End), (Metadata, Start), (Metadata, End)]"

text \<open>A linked image presents a layout when it resolves the boundary symbols of both
  sections, named by the convention of its object format, to the bounds of the layout.\<close>

definition resolves ::
  "(bound \<Rightarrow> string \<Rightarrow> string) \<Rightarrow> layout \<Rightarrow> linked_image \<Rightarrow> bool" where
  "resolves symbol lay img \<longleftrightarrow>
     list_all (\<lambda>(r, b). img (symbol b (section_name r)) = bound_address lay r b) all_bounds"

text \<open>The two variants, each with its export table and the naming convention of its
  object format.\<close>

datatype variant = Linux | Mac

definition exports_of :: "variant \<Rightarrow> (string \<times> (linked_image \<Rightarrow> pointer prog)) list" where
  "exports_of v = (case v of Linux \<Rightarrow> linux_exports | Mac \<Rightarrow> mac_exports)"

definition convention_of :: "variant \<Rightarrow> bound \<Rightarrow> string \<Rightarrow> string" where
  "convention_of v =
     (case v of Linux \<Rightarrow> elf_boundary_symbol | Mac \<Rightarrow> (\<lambda>b. macho_boundary_symbol b ''__DATA''))"

text \<open>The pointer a caller receives from the operation of a variant for a region and a
  bound.\<close>

definition pointer_from ::
  "variant \<Rightarrow> region \<Rightarrow> bound \<Rightarrow> linked_image \<Rightarrow> process \<Rightarrow> pointer option" where
  "pointer_from v r b img s =
     (case call_export (exports_of v) (operation_name r b) img s of
        None \<Rightarrow> None | Some res \<Rightarrow> value_of res)"

section \<open>The instrumented binary\<close>

text \<open>Modelled from the spec: the sections the compilation toolchain (not the repository)
  places in the image. Section 3 has each region as a contiguous range \<open>[start, end)\<close>,
  section 4.1 has the linker produce the boundary symbols as the first and the
  one-past-last address of the section. A section is its first address and its size in
  bytes; it lies within the address space, so that the one-past-last address does not wrap.
  A binary is properly instrumented for a variant when both sections are present in this
  way and the image resolves the variant's boundary symbols to their bounds.\<close>

record section_extent =
  first_byte :: addr
  byte_count :: nat

text \<open>Modelled from the spec: a section lies within the address space, so its
  one-past-last address (section 4.1) does not wrap around.\<close>

definition fits :: "section_extent \<Rightarrow> bool" where
  "fits sec \<longleftrightarrow> unat (first_byte sec) + byte_count sec < 2 ^ 64"

text \<open>Modelled from the spec: the range \<open>[start, end)\<close> of each section (section 3), from
  its first to its one-past-last address.\<close>

definition layout_of :: "(region \<Rightarrow> section_extent) \<Rightarrow> layout" where
  "layout_of secs r =
     (first_byte (secs r), first_byte (secs r) + of_nat (byte_count (secs r)))"

text \<open>Modelled from the spec: a properly instrumented binary (section 8) holds both
  sections, and its image resolves the variant's boundary symbols to their bounds.\<close>

definition properly_instrumented ::
  "variant \<Rightarrow> (region \<Rightarrow> section_extent) \<Rightarrow> linked_image \<Rightarrow> bool" where
  "properly_instrumented v secs img \<longleftrightarrow>
     fits (secs Counters) \<and> fits (secs Metadata)
     \<and> resolves (convention_of v) (layout_of secs) img"

text \<open>Modelled from the spec: the counter element width is the platform word size
  (sections 3 and 8), eight bytes on the 64-bit targets, where \<open>unsigned long int\<close> has that
  size and \<open>char\<close> has size one; \<open>void\<close> has no size.\<close>

definition counter_width :: nat where
  "counter_width = 8"

text \<open>Modelled from the spec: the sizes in bytes of the pointee types on the 64-bit
  targets, \<open>unsigned long int\<close> being word-sized (section 3).\<close>

definition sizeof :: "ctype \<Rightarrow> nat option" where
  "sizeof ty = (case ty of CChar \<Rightarrow> Some 1 | CUnsignedLong \<Rightarrow> Some 8 | CVoid \<Rightarrow> None)"

section \<open>The profiling runtime\<close>

text \<open>Modelled from the spec: the toolchain's profiling runtime (not the repository), whose
  automatic self-registration is governed by the runtime-enablement flag
  \<open>__llvm_profile_runtime\<close> (sections 4.1 and 6). Instrumented objects refer to the flag.
  When no object of the build defines it with external linkage, the linker resolves it from
  the runtime library, and the runtime it brings in registers itself; a build that defines
  the flag leaves nothing to resolve, and the runtime does not register itself.\<close>

definition profile_runtime_flag :: string where
  "profile_runtime_flag = ''__llvm_profile_runtime''"

text \<open>The definitions of an object that the linker sees: those with external linkage.\<close>

definition exported_globals :: "object_file \<Rightarrow> (string \<times> int) list" where
  "exported_globals ob =
     map (\<lambda>g. (gsymbol g, ginitial g)) (filter (\<lambda>g. glinkage g = External) (globals ob))"

text \<open>Modelled from the spec: whether the profiling runtime registers itself in a build
  (section 4.1): some object refers to the flag and no object defines it.\<close>

definition self_registers :: "object_file list \<Rightarrow> bool" where
  "self_registers build \<longleftrightarrow>
     profile_runtime_flag \<in> set (concat (map externs build))
     \<and> profile_runtime_flag \<notin> set (map fst (concat (map exported_globals build)))"

section \<open>Concrete processes, platforms and images\<close>

text \<open>\<open>main\<close> called \<open>g\<close>, \<open>g\<close> called \<open>f\<close>, \<open>f\<close> called \<open>return_address\<close>.\<close>

definition example_stack :: "frame list" where
  "example_stack =
     [\<lparr>func = ''return_address'', return_to = 0x401200\<rparr>,
      \<lparr>func = ''f'', return_to = 0x401100\<rparr>,
      \<lparr>func = ''g'', return_to = 0x401000\<rparr>]"

definition example_process :: process where
  "example_process = \<lparr>stack = example_stack, memory = (\<lambda>_. 0)\<rparr>"

definition busy_process :: process where
  "busy_process =
     \<lparr>stack = [\<lparr>func = ''get_start_instrumentation_counters'', return_to = 0x402000\<rparr>],
      memory = (\<lambda>a. if a = 0x1000 then 7 else 0)\<rparr>"

text \<open>A build with frame pointers; one without, whose intrinsic yields a stray value; and one
  without, whose intrinsic crashes.\<close>

definition walking_platform :: platform where
  "walking_platform =
     \<lparr>walks_frames = True, frame_pointers = True,
      undetermined = (\<lambda>_ s. Inr (\<lparr>pointee = CVoid, target = 0\<rparr>, s))\<rparr>"

definition stray_platform :: platform where
  "stray_platform =
     \<lparr>walks_frames = True, frame_pointers = False,
      undetermined = (\<lambda>_ s. Inr (\<lparr>pointee = CVoid, target = 0xDEADBEEF\<rparr>, s))\<rparr>"

definition crashing_platform :: platform where
  "crashing_platform =
     \<lparr>walks_frames = True, frame_pointers = False, undetermined = (\<lambda>_ _. Inl Crashed)\<rparr>"

text \<open>A machine that cannot walk frames, whose intrinsic crashes; a build with frame
  pointers whose intrinsic yields a stray value once the top of the stack is reached; and a
  process in which \<open>return_address\<close> was called by the outermost function, so that no frame
  lies at level 1.\<close>

definition blind_platform :: platform where
  "blind_platform =
     \<lparr>walks_frames = False, frame_pointers = True, undetermined = (\<lambda>_ _. Inl Crashed)\<rparr>"

definition stray_top_platform :: platform where
  "stray_top_platform =
     \<lparr>walks_frames = True, frame_pointers = True,
      undetermined = (\<lambda>_ s. Inr (\<lparr>pointee = CVoid, target = 0xDEADBEEF\<rparr>, s))\<rparr>"

definition outermost_process :: process where
  "outermost_process =
     \<lparr>stack = [\<lparr>func = ''return_address'', return_to = 0x401200\<rparr>], memory = (\<lambda>_. 0)\<rparr>"

text \<open>Sections of eight counters and of 256 bytes of metadata; an instrumented object of
  the fuzzed program, which refers to the runtime flag.\<close>

definition example_sections :: "region \<Rightarrow> section_extent" where
  "example_sections r =
     (case r of Counters \<Rightarrow> \<lparr>first_byte = 0x1000, byte_count = 64\<rparr>
              | Metadata \<Rightarrow> \<lparr>first_byte = 0x2000, byte_count = 256\<rparr>)"

definition instrumented_object :: object_file where
  "instrumented_object = \<lparr>globals = [], externs = [''__llvm_profile_runtime'']\<rparr>"

definition example_layout :: layout where
  "example_layout r = (case r of Counters \<Rightarrow> (0x1000, 0x1040) | Metadata \<Rightarrow> (0x2000, 0x2100))"

definition example_elf_image :: linked_image where
  "example_elf_image nm =
     (if nm = ''__start___llvm_prf_cnts'' then 0x1000
      else if nm = ''__stop___llvm_prf_cnts'' then 0x1040
      else if nm = ''__start___llvm_prf_data'' then 0x2000
      else if nm = ''__stop___llvm_prf_data'' then 0x2100
      else 0)"

definition example_macho_image :: linked_image where
  "example_macho_image nm =
     (if nm = ''section$start$__DATA$__llvm_prf_cnts'' then 0x1000
      else if nm = ''section$end$__DATA$__llvm_prf_cnts'' then 0x1040
      else if nm = ''section$start$__DATA$__llvm_prf_data'' then 0x2000
      else if nm = ''section$end$__DATA$__llvm_prf_data'' then 0x2100
      else 0)"

section \<open>Section accessors and boundary symbols\<close>

lemma address_of_simp [simp]:
  "address_of img ty nm s = Inr (\<lparr>pointee = ty, target = img nm\<rparr>, s)"
  by (simp add: address_of_def)

lemmas linux_accessor_defs =
  get_start_prf_data_linux_def get_end_prf_data_linux_def
  get_start_instrumentation_counters_linux_def get_end_instrumentation_counters_linux_def

lemmas mac_accessor_defs =
  get_start_prf_data_mac_def get_end_prf_data_mac_def
  get_start_instrumentation_counters_mac_def get_end_instrumentation_counters_mac_def
  CountersStart_def CountersEnd_def PrfDataStart_def PrfDataEnd_def

lemmas boundary_symbol_defs =
  section_name_def elf_boundary_symbol_def macho_boundary_symbol_def

text \<open>Every accessor of either variant is the address of one external symbol.\<close>

lemma accessor_cases:
  assumes "f \<in> set section_accessors"
  obtains ty nm where "f = (\<lambda>img. address_of img ty nm)"
proof -
  from assms have
    "f = get_start_prf_data_linux \<or> f = get_end_prf_data_linux
     \<or> f = get_start_instrumentation_counters_linux \<or> f = get_end_instrumentation_counters_linux
     \<or> f = get_start_instrumentation_counters_mac \<or> f = get_end_instrumentation_counters_mac
     \<or> f = get_start_prf_data_mac \<or> f = get_end_prf_data_mac"
    by (auto simp add: section_accessors_def linux_exports_def mac_exports_def)
  then show thesis
    unfolding get_start_prf_data_linux_def [abs_def] get_end_prf_data_linux_def [abs_def]
      get_start_instrumentation_counters_linux_def [abs_def]
      get_end_instrumentation_counters_linux_def [abs_def]
      get_start_instrumentation_counters_mac_def [abs_def]
      get_end_instrumentation_counters_mac_def [abs_def]
      get_start_prf_data_mac_def [abs_def] get_end_prf_data_mac_def [abs_def]
    using that by blast
qed

text \<open>
  C3. Each variant exports exactly four accessors, the start and the end of the counters
  region and of the metadata region. On the ELF variant each returns the address of the
  linker's boundary symbol of \<open>__llvm_prf_cnts\<close> (counters) or \<open>__llvm_prf_data\<close> (metadata);
  on the Mach-O variant the address of the \<open>section$start\<close>/\<open>section$end\<close> symbol of the same
  section in segment \<open>__DATA\<close>. No accessor takes an argument: the result depends on the
  linked image alone.
\<close>

theorem accessors_return_boundary_symbols:
  "length linux_exports = 4 \<and> length mac_exports = 4
   \<and> map fst linux_exports =
       [''get_start_prf_data'', ''get_end_prf_data'',
        ''get_start_instrumentation_counters'', ''get_end_instrumentation_counters'']
   \<and> map fst mac_exports =
       [''get_start_instrumentation_counters'', ''get_end_instrumentation_counters'',
        ''get_start_prf_data'', ''get_end_prf_data'']
   \<and> value_of (get_start_instrumentation_counters_linux img s)
       = Some \<lparr>pointee = CUnsignedLong,
               target = img (elf_boundary_symbol Start (section_name Counters))\<rparr>
   \<and> value_of (get_end_instrumentation_counters_linux img s)
       = Some \<lparr>pointee = CUnsignedLong,
               target = img (elf_boundary_symbol End (section_name Counters))\<rparr>
   \<and> value_of (get_start_prf_data_linux img s)
       = Some \<lparr>pointee = CChar,
               target = img (elf_boundary_symbol Start (section_name Metadata))\<rparr>
   \<and> value_of (get_end_prf_data_linux img s)
       = Some \<lparr>pointee = CChar,
               target = img (elf_boundary_symbol End (section_name Metadata))\<rparr>
   \<and> value_of (get_start_instrumentation_counters_mac img s)
       = Some \<lparr>pointee = CUnsignedLong,
               target = img (macho_boundary_symbol Start ''__DATA'' (section_name Counters))\<rparr>
   \<and> value_of (get_end_instrumentation_counters_mac img s)
       = Some \<lparr>pointee = CUnsignedLong,
               target = img (macho_boundary_symbol End ''__DATA'' (section_name Counters))\<rparr>
   \<and> value_of (get_start_prf_data_mac img s)
       = Some \<lparr>pointee = CChar,
               target = img (macho_boundary_symbol Start ''__DATA'' (section_name Metadata))\<rparr>
   \<and> value_of (get_end_prf_data_mac img s)
       = Some \<lparr>pointee = CChar,
               target = img (macho_boundary_symbol End ''__DATA'' (section_name Metadata))\<rparr>"
  by (simp add: linux_exports_def mac_exports_def linux_accessor_defs mac_accessor_defs
      boundary_symbol_defs value_of_def)

text \<open>
  C4. Within one process run the linked image is fixed. Whatever the process state is at the
  two calls (the stack, the contents of memory, the counters included), a section accessor
  returns a pointer, and the same pointer both times.
\<close>

theorem accessor_same_address:
  "f \<in> set section_accessors \<Longrightarrow>
     value_of (f img s) = value_of (f img s') \<and> value_of (f img s) \<noteq> None"
  by (erule accessor_cases) (simp add: value_of_def)

theorem accessor_same_address_witness:
  "get_start_instrumentation_counters_linux \<in> set section_accessors
   \<and> value_of (get_start_instrumentation_counters_linux example_elf_image example_process)
       = value_of (get_start_instrumentation_counters_linux example_elf_image busy_process)
   \<and> value_of (get_start_instrumentation_counters_linux example_elf_image example_process)
       = Some \<lparr>pointee = CUnsignedLong, target = 0x1000\<rparr>"
proof -
  have h: "get_start_instrumentation_counters_linux \<in> set section_accessors"
    by (simp add: section_accessors_def linux_exports_def)
  show ?thesis
    using h accessor_same_address [OF h, of example_elf_image example_process busy_process]
    by (simp add: get_start_instrumentation_counters_linux_def value_of_def
        example_elf_image_def)
qed

section \<open>The profiling runtime flag\<close>

text \<open>
  C7. The object of either variant defines the runtime-enablement flag
  \<open>__llvm_profile_runtime\<close> with external linkage and the value zero, and in every build that
  contains the object of either variant the profiling runtime does not register itself.
\<close>

theorem variant_disables_self_registration:
  "ob = linux_object \<or> ob = mac_object \<Longrightarrow> ob \<in> set build \<Longrightarrow>
     map_of (exported_globals ob) profile_runtime_flag = Some 0 \<and> \<not> self_registers build"
proof -
  assume v: "ob = linux_object \<or> ob = mac_object" and b: "ob \<in> set build"
  from v have e: "exported_globals ob = [(profile_runtime_flag, 0)]"
    by (auto simp add: exported_globals_def linux_object_def mac_object_def linux_globals_def
        mac_globals_def profile_runtime_flag_def)
  with b have "profile_runtime_flag \<in> set (map fst (concat (map exported_globals build)))"
    by force
  with e show ?thesis by (simp add: self_registers_def)
qed

theorem variant_disables_self_registration_witness:
  "(linux_object = linux_object \<or> linux_object = mac_object)
   \<and> linux_object \<in> set [instrumented_object, linux_object]
   \<and> self_registers [instrumented_object]
   \<and> \<not> self_registers [instrumented_object, linux_object]
   \<and> map_of (exported_globals linux_object) ''__llvm_profile_runtime'' = Some 0"
proof -
  have v: "linux_object = linux_object \<or> linux_object = mac_object" by simp
  have b: "linux_object \<in> set [instrumented_object, linux_object]" by simp
  have r: "self_registers [instrumented_object]"
    by (simp add: self_registers_def instrumented_object_def exported_globals_def
        profile_runtime_flag_def)
  show ?thesis
    using v b r variant_disables_self_registration [OF v b]
    by (simp add: profile_runtime_flag_def)
qed

section \<open>The bounds of a properly instrumented binary\<close>

text \<open>On an image that resolves a variant's boundary symbols to a layout, the variant's
  operation for a region and a bound returns the interface's pointer.\<close>

lemma pointer_from_resolved:
  assumes "resolves (convention_of v) lay img"
  shows "pointer_from v r b img s = Some (section_locator lay r b)"
proof (cases v)
  case Linux
  with assms have "resolves elf_boundary_symbol lay img"
    by (simp add: convention_of_def)
  then show ?thesis using Linux
    by (cases r; cases b)
      (auto simp add: resolves_def all_bounds_def pointer_from_def exports_of_def
        call_export_def linux_exports_def operation_name_def section_locator_def
        element_type_def bound_address_def linux_accessor_defs boundary_symbol_defs
        value_of_def)
next
  case Mac
  with assms have "resolves (\<lambda>b. macho_boundary_symbol b ''__DATA'') lay img"
    by (simp add: convention_of_def)
  then show ?thesis using Mac
    by (cases r; cases b)
      (auto simp add: resolves_def all_bounds_def pointer_from_def exports_of_def
        call_export_def mac_exports_def operation_name_def section_locator_def
        element_type_def bound_address_def mac_accessor_defs boundary_symbol_defs
        value_of_def)
qed

text \<open>A section within the address space ends at or above its first byte, and the
  difference of its bounds is its size.\<close>

lemma fits_order:
  assumes "fits sec"
  shows "first_byte sec \<le> first_byte sec + of_nat (byte_count sec)"
    and "unat (first_byte sec + of_nat (byte_count sec) - first_byte sec) = byte_count sec"
proof -
  from assms have lt: "byte_count sec < 2 ^ 64" and
    sum: "unat (first_byte sec) + byte_count sec < 2 ^ 64"
    by (simp_all add: fits_def)
  have u: "unat (of_nat (byte_count sec) :: addr) = byte_count sec"
    using lt by (simp add: unat_of_nat)
  show "first_byte sec \<le> first_byte sec + of_nat (byte_count sec)"
    using sum u by (simp add: no_olen_add_nat)
  show "unat (first_byte sec + of_nat (byte_count sec) - first_byte sec) = byte_count sec"
    using u by simp
qed

lemma fits_region:
  "properly_instrumented v secs img \<Longrightarrow> fits (secs r)"
  by (cases r) (simp_all add: properly_instrumented_def)

text \<open>
  C5. On a properly instrumented binary, for each region and on each variant, the start
  accessor and the end accessor both return a pointer, and the address the start accessor
  returns is less than or equal to the address the end accessor returns.
\<close>

theorem start_not_above_end:
  "properly_instrumented v secs img \<Longrightarrow>
     \<exists>ps pe. pointer_from v r Start img s = Some ps \<and> pointer_from v r End img s' = Some pe
       \<and> target ps \<le> target pe"
proof -
  assume p: "properly_instrumented v secs img"
  then have res: "resolves (convention_of v) (layout_of secs) img"
    by (simp add: properly_instrumented_def)
  have "target (section_locator (layout_of secs) r Start)
          \<le> target (section_locator (layout_of secs) r End)"
    using fits_order(1) [OF fits_region [OF p, of r]]
    by (simp add: section_locator_def bound_address_def layout_of_def)
  then show ?thesis
    using pointer_from_resolved [OF res] by simp
qed

theorem start_not_above_end_witness:
  "properly_instrumented Mac example_sections example_macho_image
   \<and> pointer_from Mac Metadata Start example_macho_image example_process
       = Some \<lparr>pointee = CChar, target = 0x2000\<rparr>
   \<and> pointer_from Mac Metadata End example_macho_image busy_process
       = Some \<lparr>pointee = CChar, target = 0x2100\<rparr>
   \<and> (0x2000 :: addr) \<le> 0x2100"
proof -
  have p: "properly_instrumented Mac example_sections example_macho_image"
    by (simp add: properly_instrumented_def fits_def example_sections_def resolves_def
        all_bounds_def convention_of_def boundary_symbol_defs bound_address_def
        layout_of_def example_macho_image_def)
  show ?thesis
    using p start_not_above_end [OF p, of Metadata example_process busy_process]
    by (simp add: pointer_from_def exports_of_def call_export_def mac_exports_def
        operation_name_def mac_accessor_defs value_of_def example_macho_image_def)
qed

text \<open>
  C6. On a properly instrumented binary whose counters section holds \<open>n\<close> counters of the
  counter element width, on each variant, the byte difference between the address the end
  accessor of the counters returns and the address the start accessor returns is \<open>n\<close> times
  that width, hence a multiple of it; and both accessors type the region as an array of
  elements of exactly that width, the platform word size.
\<close>

theorem counters_extent_multiple_of_width:
  "properly_instrumented v secs img \<Longrightarrow> byte_count (secs Counters) = n * counter_width \<Longrightarrow>
     \<exists>ps pe. pointer_from v Counters Start img s = Some ps
       \<and> pointer_from v Counters End img s' = Some pe
       \<and> unat (target pe - target ps) = n * counter_width
       \<and> counter_width dvd unat (target pe - target ps)
       \<and> sizeof (pointee ps) = Some counter_width
       \<and> sizeof (pointee pe) = Some counter_width"
proof -
  assume p: "properly_instrumented v secs img"
    and n: "byte_count (secs Counters) = n * counter_width"
  from p have res: "resolves (convention_of v) (layout_of secs) img"
    by (simp add: properly_instrumented_def)
  have "unat (target (section_locator (layout_of secs) Counters End)
          - target (section_locator (layout_of secs) Counters Start)) = n * counter_width"
    using fits_order(2) [OF fits_region [OF p, of Counters]] n
    by (simp add: section_locator_def bound_address_def layout_of_def)
  moreover have "sizeof (pointee (section_locator (layout_of secs) Counters b))
      = Some counter_width" for b
    by (simp add: section_locator_def element_type_def sizeof_def counter_width_def)
  ultimately show ?thesis
    using pointer_from_resolved [OF res] by simp
qed

theorem counters_extent_multiple_of_width_witness:
  "properly_instrumented Linux example_sections example_elf_image
   \<and> byte_count (example_sections Counters) = 8 * counter_width
   \<and> pointer_from Linux Counters Start example_elf_image example_process
       = Some \<lparr>pointee = CUnsignedLong, target = 0x1000\<rparr>
   \<and> pointer_from Linux Counters End example_elf_image busy_process
       = Some \<lparr>pointee = CUnsignedLong, target = 0x1040\<rparr>
   \<and> unat (0x1040 - 0x1000 :: addr) = 8 * counter_width
   \<and> sizeof CUnsignedLong = Some counter_width"
proof -
  have p: "properly_instrumented Linux example_sections example_elf_image"
    by (simp add: properly_instrumented_def fits_def example_sections_def resolves_def
        all_bounds_def convention_of_def boundary_symbol_defs bound_address_def
        layout_of_def example_elf_image_def)
  have n: "byte_count (example_sections Counters) = 8 * counter_width"
    by (simp add: example_sections_def counter_width_def)
  show ?thesis
    using p n counters_extent_multiple_of_width [OF p n, of example_process busy_process]
    by (simp add: pointer_from_def exports_of_def call_export_def linux_exports_def
        operation_name_def linux_accessor_defs value_of_def example_elf_image_def
        counter_width_def sizeof_def)
qed

section \<open>Both variants implement one interface\<close>

text \<open>
  C8. The two variants export the same four operation names. Given images that present the
  same layout, each under the naming convention of its object format, the operation for a
  region and a bound returns on both variants the pointer the Section Locator interface
  prescribes: the bound's address, typed \<open>unsigned long int *\<close> for the counters and
  \<open>char *\<close> for the metadata, with the process state untouched. The variants are
  interchangeable.
\<close>

theorem variants_refine_section_locator:
  "resolves elf_boundary_symbol lay elf \<Longrightarrow>
   resolves (\<lambda>b. macho_boundary_symbol b ''__DATA'') lay macho \<Longrightarrow>
     set (map fst linux_exports) = set (map fst mac_exports)
     \<and> call_export linux_exports (operation_name r b) elf s
         = Some (Inr (section_locator lay r b, s))
     \<and> call_export mac_exports (operation_name r b) macho s
         = Some (Inr (section_locator lay r b, s))"
  by (cases r; cases b)
    (auto simp add: resolves_def all_bounds_def call_export_def linux_exports_def
      mac_exports_def operation_name_def section_locator_def element_type_def
      bound_address_def linux_accessor_defs mac_accessor_defs boundary_symbol_defs)

theorem variants_refine_section_locator_witness:
  "resolves elf_boundary_symbol example_layout example_elf_image
   \<and> resolves (\<lambda>b. macho_boundary_symbol b ''__DATA'') example_layout example_macho_image
   \<and> call_export linux_exports ''get_end_instrumentation_counters'' example_elf_image
        example_process
       = Some (Inr (\<lparr>pointee = CUnsignedLong, target = 0x1040\<rparr>, example_process))
   \<and> call_export mac_exports ''get_end_instrumentation_counters'' example_macho_image
        example_process
       = Some (Inr (\<lparr>pointee = CUnsignedLong, target = 0x1040\<rparr>, example_process))"
proof -
  have e: "resolves elf_boundary_symbol example_layout example_elf_image"
    by (simp add: resolves_def all_bounds_def boundary_symbol_defs bound_address_def
        example_layout_def example_elf_image_def)
  have m: "resolves (\<lambda>b. macho_boundary_symbol b ''__DATA'') example_layout example_macho_image"
    by (simp add: resolves_def all_bounds_def boundary_symbol_defs bound_address_def
        example_layout_def example_macho_image_def)
  show ?thesis
    using e m variants_refine_section_locator [OF e m, of Counters End example_process]
    by (simp add: operation_name_def section_locator_def element_type_def bound_address_def
        example_layout_def)
qed

section \<open>The frame inspector\<close>

text \<open>
  C1, as the code has it. \<open>return_address\<close> takes no level argument: the level is fixed at 1.
  In a build with frame pointers, on a machine that walks frames, called from a function
  that has a caller, it returns the address at which execution resumes once the calling
  function returns, that is level 1 of the specification's \<open>return_address_of\<close>, and leaves
  the process state as it was.
\<close>

theorem return_address_level_one:
  "walks_frames pf \<Longrightarrow> frame_pointers pf \<Longrightarrow> stack s = own # caller # callers \<Longrightarrow>
     return_address pf s = Inr (\<lparr>pointee = CVoid, target = return_to caller\<rparr>, s)
     \<and> value_of (return_address pf s) = Some (return_address_of 1 s)"
  by (simp add: return_address_def builtin_return_address_def determinable_def
      return_address_of_def value_of_def)

theorem return_address_level_one_witness:
  "walks_frames walking_platform \<and> frame_pointers walking_platform
   \<and> stack example_process =
        \<lparr>func = ''return_address'', return_to = 0x401200\<rparr>
        # \<lparr>func = ''f'', return_to = 0x401100\<rparr>
        # [\<lparr>func = ''g'', return_to = 0x401000\<rparr>]
   \<and> return_address walking_platform example_process
        = Inr (\<lparr>pointee = CVoid, target = 0x401100\<rparr>, example_process)"
proof -
  have w: "walks_frames walking_platform" and f: "frame_pointers walking_platform"
    by (simp_all add: walking_platform_def)
  have st: "stack example_process =
        \<lparr>func = ''return_address'', return_to = 0x401200\<rparr>
        # \<lparr>func = ''f'', return_to = 0x401100\<rparr>
        # [\<lparr>func = ''g'', return_to = 0x401000\<rparr>]"
    by (simp add: example_process_def example_stack_def)
  show ?thesis using w f st return_address_level_one [OF w f st] by simp
qed

text \<open>The operation does not serve level 0 or level 2: called from \<open>f\<close>, itself called from
  \<open>g\<close>, it yields neither the address inside \<open>f\<close> nor the one inside \<open>main\<close>.\<close>

theorem return_address_has_no_level_counterexample:
  "value_of (return_address walking_platform example_process)
     \<noteq> Some (return_address_of 0 example_process)
   \<and> value_of (return_address walking_platform example_process)
     \<noteq> Some (return_address_of 2 example_process)"
  by (simp add: return_address_def builtin_return_address_def determinable_def
      return_address_of_def value_of_def walking_platform_def example_process_def
      example_stack_def)

text \<open>
  C2, as the code has it. Where the frame at level 1 cannot be determined (the stack is too
  shallow, the machine does not walk frames, or the build has no frame pointers), the
  operation adds no check of its own: its outcome is whatever the compiler intrinsic does
  there. It yields the null sentinel exactly where the intrinsic does.
\<close>

theorem return_address_undetermined:
  "\<not> determinable pf 1 s \<Longrightarrow> return_address pf s = undetermined pf 1 s"
  by (simp add: return_address_def builtin_return_address_def)

theorem return_address_undetermined_witness:
  "\<not> determinable stray_platform 1 example_process
   \<and> return_address stray_platform example_process
       = Inr (\<lparr>pointee = CVoid, target = 0xDEADBEEF\<rparr>, example_process)"
proof -
  have h: "\<not> determinable stray_platform 1 example_process"
    by (simp add: determinable_def stray_platform_def)
  show ?thesis using h return_address_undetermined [OF h] by (simp add: stray_platform_def)
qed

text \<open>The result need not be the sentinel. Called by the outermost function, so that
  level 1 lies beyond the depth of the stack, the operation yields a stray value on one
  platform; on a machine that cannot walk frames it crashes.\<close>

theorem return_address_no_sentinel_counterexample:
  "\<not> 1 < length (stack outermost_process)
   \<and> value_of (return_address stray_top_platform outermost_process)
       \<noteq> Some \<lparr>pointee = CVoid, target = 0\<rparr>
   \<and> \<not> walks_frames blind_platform
   \<and> return_address blind_platform example_process = Inl Crashed"
  by (simp add: return_address_def builtin_return_address_def determinable_def value_of_def
      stray_top_platform_def blind_platform_def outermost_process_def)

section \<open>Effects and totality\<close>

text \<open>
  C9, as the code has it. A section accessor of either variant leaves the process state
  unchanged. \<open>return_address\<close> leaves it unchanged whenever the frame at level 1 is
  determinable: a caller's frame exists, the machine walks frames and the build has frame
  pointers.
\<close>

theorem operations_leave_state_unchanged:
  "(f \<in> set section_accessors \<longrightarrow> state_after (f img s) = Some s)
   \<and> (determinable pf 1 s \<longrightarrow> state_after (return_address pf s) = Some s)"
proof (intro conjI impI)
  assume "f \<in> set section_accessors"
  then show "state_after (f img s) = Some s"
    by (rule accessor_cases) (simp add: state_after_def)
next
  assume "determinable pf 1 s"
  then show "state_after (return_address pf s) = Some s"
    by (simp add: return_address_def builtin_return_address_def state_after_def)
qed

theorem operations_leave_state_unchanged_witness:
  "get_end_prf_data_mac \<in> set section_accessors
   \<and> state_after (get_end_prf_data_mac example_macho_image example_process)
       = Some example_process
   \<and> determinable walking_platform 1 example_process
   \<and> state_after (return_address walking_platform example_process) = Some example_process"
proof -
  have a: "get_end_prf_data_mac \<in> set section_accessors"
    by (simp add: section_accessors_def linux_exports_def mac_exports_def)
  have d: "determinable walking_platform 1 example_process"
    by (simp add: determinable_def walking_platform_def example_process_def example_stack_def)
  from operations_leave_state_unchanged
    [of get_end_prf_data_mac example_macho_image example_process walking_platform]
  show ?thesis using a d by blast
qed

text \<open>In a build without frame pointers the call may end the process instead of handing
  its state back.\<close>

theorem crash_changes_state_counterexample:
  "state_after (return_address crashing_platform example_process) \<noteq> Some example_process"
  by (simp add: return_address_def builtin_return_address_def determinable_def
      crashing_platform_def state_after_def)

text \<open>
  C10, as the code has it. Every call of a section accessor of either variant returns, with
  no precondition. A call of \<open>return_address\<close> returns whenever the frame at level 1 is
  determinable; where it is not, the call returns exactly when the compiler intrinsic
  returns there.
\<close>

theorem operations_return:
  "(f \<in> set section_accessors \<longrightarrow> returns (f img s))
   \<and> (returns (return_address pf s)
        \<longleftrightarrow> determinable pf 1 s \<or> returns (undetermined pf 1 s))"
proof (intro conjI impI)
  assume "f \<in> set section_accessors"
  then show "returns (f img s)"
    by (rule accessor_cases) (simp add: returns_def)
next
  show "returns (return_address pf s)
          \<longleftrightarrow> determinable pf 1 s \<or> returns (undetermined pf 1 s)"
    by (simp add: return_address_def builtin_return_address_def returns_def)
qed

theorem operations_return_witness:
  "get_start_prf_data_linux \<in> set section_accessors
   \<and> returns (get_start_prf_data_linux example_elf_image example_process)
   \<and> determinable walking_platform 1 example_process
   \<and> returns (return_address walking_platform example_process)
   \<and> \<not> determinable stray_platform 1 example_process
   \<and> returns (return_address stray_platform example_process)
   \<and> \<not> determinable blind_platform 1 example_process
   \<and> \<not> returns (return_address blind_platform example_process)"
proof -
  have a: "get_start_prf_data_linux \<in> set section_accessors"
    by (simp add: section_accessors_def linux_exports_def mac_exports_def)
  have d: "determinable walking_platform 1 example_process"
    by (simp add: determinable_def walking_platform_def example_process_def example_stack_def)
  have n: "\<not> determinable stray_platform 1 example_process"
    "\<not> determinable blind_platform 1 example_process"
    by (simp_all add: determinable_def stray_platform_def blind_platform_def)
  have u: "returns (undetermined stray_platform 1 example_process)"
    "\<not> returns (undetermined blind_platform 1 example_process)"
    by (simp_all add: returns_def stray_platform_def blind_platform_def)
  from operations_return
    [of get_start_prf_data_linux example_elf_image example_process walking_platform]
    operations_return
    [of get_start_prf_data_linux example_elf_image example_process stray_platform]
    operations_return
    [of get_start_prf_data_linux example_elf_image example_process blind_platform]
  show ?thesis using a d n u by blast
qed

text \<open>In a build without frame pointers a call of \<open>return_address\<close> need not return.\<close>

theorem return_address_not_total_counterexample:
  "\<not> returns (return_address crashing_platform example_process)"
  by (simp add: return_address_def builtin_return_address_def determinable_def
      crashing_platform_def returns_def)

end
